theory Spec2Isabelle
  imports Complex_Main
begin

section \<open>Measurement blocks of \<^verbatim>\<open>synapse/util/metrics.py\<close>\<close>

text \<open>
  The module defines seven counters labelled by block name, the context manager
  \<^verbatim>\<open>Measure\<close> and the decorator \<^verbatim>\<open>measure_func\<close>. The model is a shallow
  embedding with explicit state passing: everything \<^verbatim>\<open>Measure\<close> reads or writes
  outside itself (the clocks, the current logging context, the logging contexts on the
  heap, the counters and the logger) is a field of the record \<open>world\<close>.

  Python numbers (the integer milliseconds of the clock, the float seconds of resource
  usage, the results of \<^verbatim>\<open>/ 1000.\<close>) are exact here: integers are \<open>int\<close>, everything
  a counter accumulates is \<open>rat\<close>. Rounding of floating-point arithmetic is not modelled.
\<close>

subsection \<open>Collaborators that the module imports\<close>

type_synonym ctx_ref = nat
type_synonym clock_ref = nat

text \<open>
  Modelled from the spec: the logging context of \<^verbatim>\<open>synapse.util.logcontext\<close>, which is
  not part of the sources at hand. The spec gives it two CPU totals (read through
  \<^verbatim>\<open>resource_usage()\<close>), the three fields \<^verbatim>\<open>db_txn_count\<close>,
  \<^verbatim>\<open>db_txn_duration_ms\<close>, \<^verbatim>\<open>db_sched_duration_ms\<close>, and a push/pop discipline
  (\<^verbatim>\<open>new(name)\<close>, \<^verbatim>\<open>exit()\<close>). A context is an object on the heap, compared by
  identity; \<open>ctx_ref\<close> is that identity.
\<close>

record LoggingContext =
  ctx_name :: string
  ctx_parent :: "ctx_ref option"
  ctx_ru_utime :: rat
  ctx_ru_stime :: rat
  ctx_db_txn_count :: int
  ctx_db_txn_duration_ms :: rat
  ctx_db_sched_duration_ms :: rat

text \<open>The two warnings that \<^verbatim>\<open>Measure.__exit__\<close> hands to \<^verbatim>\<open>logger.warn\<close>,
  with their arguments.\<close>

datatype warning =
  Context_changed "ctx_ref option" "ctx_ref option" string
| Expected_context string

type_synonym counter = "string \<Rightarrow> rat"

text \<open>
  The state outside a \<^verbatim>\<open>Measure\<close> object. \<open>current_context = None\<close> is the absent
  context: \<^verbatim>\<open>LoggingContext.current_context()\<close> then returns a value that is false in
  a boolean test and is not identical to any context. \<open>exited\<close> lists the contexts
  whose \<^verbatim>\<open>__exit__\<close> has been called, oldest first; \<open>warnings\<close> is the log.
\<close>

record world =
  time_msec :: "clock_ref \<Rightarrow> int"
  current_context :: "ctx_ref option"
  contexts :: "ctx_ref \<Rightarrow> LoggingContext"
  next_ref :: ctx_ref
  exited :: "ctx_ref list"
  warnings :: "warning list"
  block_counter :: counter
  block_timer :: counter
  block_ru_utime :: counter
  block_ru_stime :: counter
  block_db_txn_count :: counter
  block_db_txn_duration :: counter
  block_db_sched_duration :: counter

text \<open>Modelled from the spec: the counters of \<^verbatim>\<open>synapse.metrics\<close> support
  "increment by label" and "increment-by-amount by label".\<close>

definition inc_by :: "counter \<Rightarrow> rat \<Rightarrow> string \<Rightarrow> counter" where
  "inc_by c incr label = c(label := c label + incr)"

definition inc :: "counter \<Rightarrow> string \<Rightarrow> counter" where
  "inc c label = inc_by c 1 label"

text \<open>Modelled from the spec: \<^verbatim>\<open>LoggingContext(name)\<close> allocates a context whose
  running totals are zero; \<^verbatim>\<open>__enter__\<close> pushes it (it becomes the current context
  and remembers the one it replaced); \<^verbatim>\<open>__exit__\<close> pops it.\<close>

definition LoggingContext_new :: "string \<Rightarrow> world \<Rightarrow> ctx_ref \<times> world" where
  "LoggingContext_new nm w =
     (next_ref w,
      w\<lparr>contexts := (contexts w)(next_ref w :=
           \<lparr>ctx_name = nm, ctx_parent = None, ctx_ru_utime = 0, ctx_ru_stime = 0,
            ctx_db_txn_count = 0, ctx_db_txn_duration_ms = 0,
            ctx_db_sched_duration_ms = 0\<rparr>),
        next_ref := Suc (next_ref w)\<rparr>)"

definition LoggingContext_enter :: "ctx_ref \<Rightarrow> world \<Rightarrow> world" where
  "LoggingContext_enter c w =
     w\<lparr>contexts := (contexts w)(c := (contexts w c)\<lparr>ctx_parent := current_context w\<rparr>),
       current_context := Some c\<rparr>"

definition LoggingContext_exit :: "ctx_ref \<Rightarrow> world \<Rightarrow> world" where
  "LoggingContext_exit c w =
     w\<lparr>current_context := ctx_parent (contexts w c), exited := exited w @ [c]\<rparr>"

definition get_resource_usage :: "LoggingContext \<Rightarrow> rat \<times> rat" where
  "get_resource_usage c = (ctx_ru_utime c, ctx_ru_stime c)"

subsection \<open>The class \<^verbatim>\<open>Measure\<close>\<close>

text \<open>
  The slots of the class. \<^verbatim>\<open>__init__\<close> assigns only \<^verbatim>\<open>clock\<close>, \<^verbatim>\<open>name\<close>,
  \<^verbatim>\<open>start_context\<close>, \<^verbatim>\<open>start\<close> and \<^verbatim>\<open>created_context\<close>; the five snapshot
  slots stay unset until \<^verbatim>\<open>__enter__\<close>, and reading an unset slot raises
  \<^verbatim>\<open>AttributeError\<close>, so each of them is an option with \<open>None\<close> for "unset". For
  \<open>start\<close>, \<open>None\<close> is Python's \<^verbatim>\<open>None\<close>. For \<open>start_context\<close>, \<open>None\<close> stands for
  every value that is false in a boolean test (Python's \<^verbatim>\<open>None\<close> and the absent
  context). The slot \<^verbatim>\<open>new_context\<close> is declared and never read or written.
\<close>

record Measure =
  clock :: clock_ref
  name :: string
  start_context :: "ctx_ref option"
  start :: "int option"
  ru_utime :: "rat option"
  ru_stime :: "rat option"
  db_txn_count :: "int option"
  db_txn_duration_ms :: "rat option"
  db_sched_duration_ms :: "rat option"
  created_context :: bool

datatype error = TypeError | AttributeError

definition Measure_init :: "clock_ref \<Rightarrow> string \<Rightarrow> Measure" where
  "Measure_init clk nm =
     \<lparr>clock = clk, name = nm, start_context = None, start = None,
      ru_utime = None, ru_stime = None, db_txn_count = None,
      db_txn_duration_ms = None, db_sched_duration_ms = None,
      created_context = False\<rparr>"

text \<open>\<^verbatim>\<open>__enter__\<close>: record the start time and the current context, create and enter
  a context when there is none, then snapshot the context's five totals.\<close>

definition Measure_enter :: "Measure \<Rightarrow> world \<Rightarrow> Measure \<times> world" where
  "Measure_enter self w =
     (let self = self\<lparr>start := Some (time_msec w (clock self))\<rparr>;
          self = self\<lparr>start_context := current_context w\<rparr>;
          (self, c, w) =
            (case start_context self of
               None \<Rightarrow>
                 (let (c, w) = LoggingContext_new ''Measure'' w;
                      self = self\<lparr>start_context := Some c\<rparr>;
                      w = LoggingContext_enter c w;
                      self = self\<lparr>created_context := True\<rparr>
                  in (self, c, w))
             | Some c \<Rightarrow> (self, c, w));
          (u, s) = get_resource_usage (contexts w c);
          self = self\<lparr>ru_utime := Some u, ru_stime := Some s\<rparr>;
          self = self\<lparr>db_txn_count := Some (ctx_db_txn_count (contexts w c))\<rparr>;
          self = self\<lparr>db_txn_duration_ms := Some (ctx_db_txn_duration_ms (contexts w c))\<rparr>;
          self = self\<lparr>db_sched_duration_ms :=
                   Some (ctx_db_sched_duration_ms (contexts w c))\<rparr>
      in (self, w))"

text \<open>
  \<^verbatim>\<open>isinstance(exc_type, Exception)\<close>: the \<^verbatim>\<open>with\<close> statement passes as
  \<^verbatim>\<open>exc_type\<close> either \<^verbatim>\<open>None\<close> or the class of the exception, and neither is an
  instance of \<^verbatim>\<open>Exception\<close>. The argument is \<open>None\<close> for a normal exit and
  \<open>Some x\<close> when the body raised \<open>x\<close>.
\<close>

definition isinstance_Exception :: "'e option \<Rightarrow> bool" where
  "isinstance_Exception exc_type = False"

definition warn :: "warning \<Rightarrow> world \<Rightarrow> world" where
  "warn msg w = w\<lparr>warnings := warnings w @ [msg]\<rparr>"

text \<open>
  \<^verbatim>\<open>__exit__\<close>, statement by statement. It returns \<open>Inr\<close> of the new world when it
  returns (it always returns \<^verbatim>\<open>None\<close>, so it never swallows an exception), and \<open>Inl\<close>
  of the error when it raises: \<^verbatim>\<open>TypeError\<close> for the subtraction from a \<open>start\<close>
  that is \<^verbatim>\<open>None\<close>, \<^verbatim>\<open>AttributeError\<close> for reading a snapshot slot that is unset.
\<close>

definition Measure_exit :: "Measure \<Rightarrow> 'e option \<Rightarrow> world \<Rightarrow> error + world" where
  "Measure_exit self exc w =
     (if isinstance_Exception exc \<or> start_context self = None then Inr w
      else case start self of
        None \<Rightarrow> Inl TypeError
      | Some st \<Rightarrow>
         (let duration = time_msec w (clock self) - st;
              w = w\<lparr>block_counter := inc (block_counter w) (name self)\<rparr>;
              w = w\<lparr>block_timer := inc_by (block_timer w) (of_int duration) (name self)\<rparr>;
              context = current_context w
          in if context \<noteq> start_context self then
               Inr (warn (Context_changed (start_context self) context (name self)) w)
             else case context of
               None \<Rightarrow> Inr (warn (Expected_context (name self)) w)
             | Some c \<Rightarrow>
                (let (u, s) = get_resource_usage (contexts w c) in
                 case (ru_utime self, ru_stime self, db_txn_count self,
                       db_txn_duration_ms self, db_sched_duration_ms self) of
                   (Some u0, Some s0, Some n0, Some d0, Some q0) \<Rightarrow>
                     (let w = w\<lparr>block_ru_utime :=
                                  inc_by (block_ru_utime w) (u - u0) (name self)\<rparr>;
                          w = w\<lparr>block_ru_stime :=
                                  inc_by (block_ru_stime w) (s - s0) (name self)\<rparr>;
                          w = w\<lparr>block_db_txn_count :=
                                  inc_by (block_db_txn_count w)
                                    (of_int (ctx_db_txn_count (contexts w c) - n0))
                                    (name self)\<rparr>;
                          w = w\<lparr>block_db_txn_duration :=
                                  inc_by (block_db_txn_duration w)
                                    ((ctx_db_txn_duration_ms (contexts w c) - d0) / 1000)
                                    (name self)\<rparr>;
                          w = w\<lparr>block_db_sched_duration :=
                                  inc_by (block_db_sched_duration w)
                                    ((ctx_db_sched_duration_ms (contexts w c) - q0) / 1000)
                                    (name self)\<rparr>
                      in if created_context self
                         then (case start_context self of
                                 Some c0 \<Rightarrow> Inr (LoggingContext_exit c0 w)
                               | None \<Rightarrow> Inr w)
                         else Inr w)
                 | _ \<Rightarrow> Inl AttributeError)))"

subsection \<open>The \<^verbatim>\<open>with\<close> statement and \<^verbatim>\<open>measure_func\<close>\<close>

text \<open>
  \<^verbatim>\<open>with Measure(clock, name): body\<close>. The body is any computation on the world
  that returns a value (\<open>Inr\<close>) or raises (\<open>Inl\<close>). \<^verbatim>\<open>__exit__\<close> runs on both
  paths; as it returns \<^verbatim>\<open>None\<close>, an exception of the body is raised again after it.
  An exception raised by \<^verbatim>\<open>__exit__\<close> itself replaces the outcome of the body.
\<close>

datatype 'e raised = Raised 'e | Release_error error

definition with_Measure ::
  "clock_ref \<Rightarrow> string \<Rightarrow> (world \<Rightarrow> ('e + 'a) \<times> world) \<Rightarrow> world
     \<Rightarrow> ('e raised + 'a) \<times> world" where
  "with_Measure clk nm body w =
     (let (m, w) = Measure_enter (Measure_init clk nm) w;
          (r, w) = body w
      in case r of
           Inr v \<Rightarrow>
             (case Measure_exit m (None :: 'e option) w of
                Inr w' \<Rightarrow> (Inr v, w')
              | Inl e \<Rightarrow> (Inl (Release_error e), w))
         | Inl x \<Rightarrow>
             (case Measure_exit m (Some x) w of
                Inr w' \<Rightarrow> (Inl (Raised x), w')
              | Inl e \<Rightarrow> (Inl (Release_error e), w)))"

text \<open>
  \<^verbatim>\<open>measure_func(name)(func)\<close>: the wrapped method runs \<^verbatim>\<open>func\<close> inside
  \<^verbatim>\<open>with Measure(self.clock, name)\<close> and returns its result. \<open>self_clock\<close> is the
  \<^verbatim>\<open>clock\<close> attribute of the object the method is called on; \<open>func\<close> has already
  been given its arguments.
\<close>

definition measure_func ::
  "string \<Rightarrow> (world \<Rightarrow> ('e + 'a) \<times> world) \<Rightarrow> clock_ref \<Rightarrow> world
     \<Rightarrow> ('e raised + 'a) \<times> world" where
  "measure_func nm func self_clock w = with_Measure self_clock nm func w"

text \<open>A world for concrete runs: one clock reading 1000 ms, no current context, all
  counters at zero, nothing logged.\<close>

definition empty_context :: LoggingContext where
  "empty_context =
     \<lparr>ctx_name = [], ctx_parent = None, ctx_ru_utime = 0, ctx_ru_stime = 0,
      ctx_db_txn_count = 0, ctx_db_txn_duration_ms = 0, ctx_db_sched_duration_ms = 0\<rparr>"

definition world0 :: world where
  "world0 =
     \<lparr>time_msec = (\<lambda>_. 1000), current_context = None, contexts = (\<lambda>_. empty_context),
      next_ref = 0, exited = [], warnings = [],
      block_counter = (\<lambda>_. 0), block_timer = (\<lambda>_. 0), block_ru_utime = (\<lambda>_. 0),
      block_ru_stime = (\<lambda>_. 0), block_db_txn_count = (\<lambda>_. 0),
      block_db_txn_duration = (\<lambda>_. 0), block_db_sched_duration = (\<lambda>_. 0)\<rparr>"

text \<open>
  The scenario of the spec: block \<^verbatim>\<open>x\<close> is acquired in \<open>world0\<close>, which creates
  context 0 at 1000 ms (\<open>measure_x\<close> and \<open>world1\<close> are the block and the world after
  \<^verbatim>\<open>__enter__\<close>); the work then moves the clock to 1300 ms, makes two transactions
  and spends 400 ms in them. \<open>lose_context\<close> and \<open>swap_context\<close> are works that
  leave no context, or another one, active.
\<close>

definition measure_x :: Measure where
  "measure_x =
     \<lparr>clock = 0, name = ''x'', start_context = Some 0, start = Some 1000,
      ru_utime = Some 0, ru_stime = Some 0, db_txn_count = Some 0,
      db_txn_duration_ms = Some 0, db_sched_duration_ms = Some 0,
      created_context = True\<rparr>"

definition world1 :: world where
  "world1 =
     world0\<lparr>contexts := (contexts world0)(0 := empty_context\<lparr>ctx_name := ''Measure''\<rparr>),
       next_ref := 1, current_context := Some 0\<rparr>"

definition work :: "world \<Rightarrow> world" where
  "work w =
     w\<lparr>time_msec := (\<lambda>_. 1300),
       contexts := (contexts w)(0 := (contexts w 0)
          \<lparr>ctx_db_txn_count := 2, ctx_db_txn_duration_ms := 400\<rparr>)\<rparr>"

definition lose_context :: "world \<Rightarrow> world" where
  "lose_context w = (work w)\<lparr>current_context := None\<rparr>"

definition swap_context :: "world \<Rightarrow> world" where
  "swap_context w = (work w)\<lparr>current_context := Some 7\<rparr>"

text \<open>A body that does the work of the scenario and then raises.\<close>

definition failing_work :: "world \<Rightarrow> (string + unit) \<times> world" where
  "failing_work w = (Inl ''boom'', work w)"

subsection \<open>What \<^verbatim>\<open>__enter__\<close> and \<^verbatim>\<open>__exit__\<close> compute\<close>

lemma enter_some:
  "current_context w = Some c \<Longrightarrow>
   Measure_enter self w =
     (self\<lparr>start := Some (time_msec w (clock self)), start_context := Some c,
           ru_utime := Some (ctx_ru_utime (contexts w c)),
           ru_stime := Some (ctx_ru_stime (contexts w c)),
           db_txn_count := Some (ctx_db_txn_count (contexts w c)),
           db_txn_duration_ms := Some (ctx_db_txn_duration_ms (contexts w c)),
           db_sched_duration_ms := Some (ctx_db_sched_duration_ms (contexts w c))\<rparr>, w)"
  by (simp add: Measure_enter_def get_resource_usage_def)

lemma enter_none:
  "current_context w = None \<Longrightarrow>
   Measure_enter self w =
     (self\<lparr>start := Some (time_msec w (clock self)), start_context := Some (next_ref w),
           created_context := True,
           ru_utime := Some 0, ru_stime := Some 0, db_txn_count := Some 0,
           db_txn_duration_ms := Some 0, db_sched_duration_ms := Some 0\<rparr>,
      LoggingContext_enter (next_ref w) (snd (LoggingContext_new ''Measure'' w)))"
  by (simp add: Measure_enter_def get_resource_usage_def LoggingContext_new_def
      LoggingContext_enter_def)

text \<open>After \<^verbatim>\<open>__enter__\<close> every slot is set: the baseline context is a real context
  and the snapshots are its totals at that moment.\<close>

lemma enter_slots:
  assumes "Measure_enter m0 w = (m, w1)"
  shows "\<exists>c. start_context m = Some c
     \<and> start m = Some (time_msec w (clock m0))
     \<and> name m = name m0 \<and> clock m = clock m0
     \<and> ru_utime m = Some (ctx_ru_utime (contexts w1 c))
     \<and> ru_stime m = Some (ctx_ru_stime (contexts w1 c))
     \<and> db_txn_count m = Some (ctx_db_txn_count (contexts w1 c))
     \<and> db_txn_duration_ms m = Some (ctx_db_txn_duration_ms (contexts w1 c))
     \<and> db_sched_duration_ms m = Some (ctx_db_sched_duration_ms (contexts w1 c))"
proof (cases "current_context w")
  case None
  from enter_none [OF None, of m0] assms show ?thesis
    by (auto simp: LoggingContext_new_def LoggingContext_enter_def)
next
  case (Some c)
  from enter_some [OF Some, of m0] assms show ?thesis
    by auto
qed

text \<open>The branch of \<^verbatim>\<open>__exit__\<close> taken when the current context is not the
  baseline context.\<close>

lemma exit_changed:
  assumes "start_context m = Some c" and "start m = Some st"
    and "current_context w \<noteq> Some c"
  shows "Measure_exit m exc w =
     Inr (warn (Context_changed (Some c) (current_context w) (name m))
           (w\<lparr>block_counter := inc (block_counter w) (name m),
              block_timer := inc_by (block_timer w)
                (of_int (time_msec w (clock m) - st)) (name m)\<rparr>))"
  using assms by (simp add: Measure_exit_def isinstance_Exception_def Let_def)

text \<open>The branch taken when the current context is the baseline context.\<close>

lemma exit_same:
  assumes "start_context m = Some c" and "start m = Some st"
    and "current_context w = Some c"
    and "ru_utime m = Some u0" and "ru_stime m = Some s0" and "db_txn_count m = Some n0"
    and "db_txn_duration_ms m = Some d0" and "db_sched_duration_ms m = Some q0"
  shows "Measure_exit m exc w =
     Inr ((if created_context m then LoggingContext_exit c else id)
           (w\<lparr>block_counter := inc (block_counter w) (name m),
              block_timer := inc_by (block_timer w)
                (of_int (time_msec w (clock m) - st)) (name m),
              block_ru_utime := inc_by (block_ru_utime w)
                (ctx_ru_utime (contexts w c) - u0) (name m),
              block_ru_stime := inc_by (block_ru_stime w)
                (ctx_ru_stime (contexts w c) - s0) (name m),
              block_db_txn_count := inc_by (block_db_txn_count w)
                (of_int (ctx_db_txn_count (contexts w c) - n0)) (name m),
              block_db_txn_duration := inc_by (block_db_txn_duration w)
                ((ctx_db_txn_duration_ms (contexts w c) - d0) / 1000) (name m),
              block_db_sched_duration := inc_by (block_db_sched_duration w)
                ((ctx_db_sched_duration_ms (contexts w c) - q0) / 1000) (name m)\<rparr>))"
  using assms
  by (simp add: Measure_exit_def isinstance_Exception_def Let_def get_resource_usage_def)

text \<open>The scenario, evaluated: acquiring block \<^verbatim>\<open>x\<close> in \<open>world0\<close>.\<close>

lemma enter_world0: "Measure_enter (Measure_init 0 ''x'') world0 = (measure_x, world1)"
  by (simp add: enter_none world0_def world1_def measure_x_def Measure_init_def
      LoggingContext_new_def LoggingContext_enter_def empty_context_def)

lemma name_init: "name (Measure_init clk nm) = nm"
  by (simp add: Measure_init_def)

text \<open>\<^verbatim>\<open>__exit__\<close> after a completed \<^verbatim>\<open>__enter__\<close>, in a world \<open>w2\<close> that the
  work has left: first when the current context is not the baseline, then when it is.\<close>

lemma release_changed:
  assumes "Measure_enter m0 w = (m, w1)" and "current_context w2 \<noteq> start_context m"
  shows "Measure_exit m exc w2 =
     Inr (warn (Context_changed (start_context m) (current_context w2) (name m0))
           (w2\<lparr>block_counter := inc (block_counter w2) (name m0),
               block_timer := inc_by (block_timer w2)
                 (of_int (time_msec w2 (clock m0) - time_msec w (clock m0))) (name m0)\<rparr>))"
proof -
  from enter_slots [OF assms(1)] obtain c where
    c: "start_context m = Some c" "start m = Some (time_msec w (clock m0))"
       "name m = name m0" "clock m = clock m0"
    by blast
  from assms(2) have "current_context w2 \<noteq> Some c" by (simp add: c(1))
  from exit_changed [OF c(1,2) this, of exc] show ?thesis by (simp only: c)
qed

lemma release_same:
  assumes "Measure_enter m0 w = (m, w1)" and "start_context m = Some c"
    and "current_context w2 = Some c"
  shows "Measure_exit m exc w2 =
     Inr ((if created_context m then LoggingContext_exit c else id)
           (w2\<lparr>block_counter := inc (block_counter w2) (name m0),
              block_timer := inc_by (block_timer w2)
                (of_int (time_msec w2 (clock m0) - time_msec w (clock m0))) (name m0),
              block_ru_utime := inc_by (block_ru_utime w2)
                (ctx_ru_utime (contexts w2 c) - ctx_ru_utime (contexts w1 c)) (name m0),
              block_ru_stime := inc_by (block_ru_stime w2)
                (ctx_ru_stime (contexts w2 c) - ctx_ru_stime (contexts w1 c)) (name m0),
              block_db_txn_count := inc_by (block_db_txn_count w2)
                (of_int (ctx_db_txn_count (contexts w2 c) - ctx_db_txn_count (contexts w1 c)))
                (name m0),
              block_db_txn_duration := inc_by (block_db_txn_duration w2)
                ((ctx_db_txn_duration_ms (contexts w2 c)
                   - ctx_db_txn_duration_ms (contexts w1 c)) / 1000) (name m0),
              block_db_sched_duration := inc_by (block_db_sched_duration w2)
                ((ctx_db_sched_duration_ms (contexts w2 c)
                   - ctx_db_sched_duration_ms (contexts w1 c)) / 1000) (name m0)\<rparr>))"
proof -
  from enter_slots [OF assms(1)] assms(2) have
    c: "start m = Some (time_msec w (clock m0))"
       "ru_utime m = Some (ctx_ru_utime (contexts w1 c))"
       "ru_stime m = Some (ctx_ru_stime (contexts w1 c))"
       "db_txn_count m = Some (ctx_db_txn_count (contexts w1 c))"
       "db_txn_duration_ms m = Some (ctx_db_txn_duration_ms (contexts w1 c))"
       "db_sched_duration_ms m = Some (ctx_db_sched_duration_ms (contexts w1 c))"
    and n: "name m = name m0" "clock m = clock m0"
    by auto
  from exit_same [OF assms(2) c(1) assms(3) c(2-6), of exc] show ?thesis by (simp only: n)
qed

lemma clock_init: "clock (Measure_init clk nm) = clk"
  by (simp add: Measure_init_def)

lemma world1_simps:
  "current_context world1 = Some 0" "exited world1 = []" "warnings world1 = []"
  "time_msec world1 = (\<lambda>_. 1000)"
  by (simp_all add: world1_def world0_def)

lemma measure_x_simps:
  "start_context measure_x = Some 0" "name measure_x = ''x''" "created_context measure_x"
  by (simp_all add: measure_x_def)

text \<open>The scenario, evaluated: releasing block \<^verbatim>\<open>x\<close> after the work.\<close>

lemma exit_work:
  "Measure_exit measure_x exc (work world1) =
     Inr ((work world1)\<lparr>block_counter := (\<lambda>_. 0)(''x'' := 1),
            block_timer := (\<lambda>_. 0)(''x'' := 300),
            block_ru_utime := (\<lambda>_. 0)(''x'' := 0),
            block_ru_stime := (\<lambda>_. 0)(''x'' := 0),
            block_db_txn_count := (\<lambda>_. 0)(''x'' := 2),
            block_db_txn_duration := (\<lambda>_. 0)(''x'' := 2 / 5),
            block_db_sched_duration := (\<lambda>_. 0)(''x'' := 0),
            current_context := None, exited := [0]\<rparr>)"
  by (simp add: Measure_exit_def isinstance_Exception_def measure_x_def work_def world1_def
      world0_def empty_context_def get_resource_usage_def inc_def inc_by_def
      LoggingContext_exit_def)

lemma work_world1_simps:
  "current_context (work world1) = Some 0"
  "ctx_ru_utime (contexts (work world1) 0) = 0"
  "ctx_ru_stime (contexts (work world1) 0) = 0"
  "ctx_db_txn_count (contexts (work world1) 0) = 2"
  "ctx_db_txn_duration_ms (contexts (work world1) 0) = 400"
  "ctx_db_sched_duration_ms (contexts (work world1) 0) = 0"
  "time_msec (work world1) = (\<lambda>_. 1300)"
  "exited (work world1) = []" "warnings (work world1) = []"
  "block_counter (work world1) = (\<lambda>_. 0)" "block_timer (work world1) = (\<lambda>_. 0)"
  "block_ru_utime (work world1) = (\<lambda>_. 0)" "block_ru_stime (work world1) = (\<lambda>_. 0)"
  "block_db_txn_count (work world1) = (\<lambda>_. 0)"
  "block_db_txn_duration (work world1) = (\<lambda>_. 0)"
  "block_db_sched_duration (work world1) = (\<lambda>_. 0)"
  by (simp_all add: work_def world1_def world0_def empty_context_def)

lemma world1_context_simps:
  "ctx_ru_utime (contexts world1 0) = 0"
  "ctx_ru_stime (contexts world1 0) = 0"
  "ctx_db_txn_count (contexts world1 0) = 0"
  "ctx_db_txn_duration_ms (contexts world1 0) = 0"
  "ctx_db_sched_duration_ms (contexts world1 0) = 0"
  by (simp_all add: world1_def world0_def empty_context_def)

text \<open>\<^verbatim>\<open>__enter__\<close> touches no counter.\<close>

lemma enter_counters:
  assumes "Measure_enter m0 w = (m, w1)"
  shows "block_counter w1 = block_counter w \<and> block_timer w1 = block_timer w
     \<and> block_ru_utime w1 = block_ru_utime w \<and> block_ru_stime w1 = block_ru_stime w
     \<and> block_db_txn_count w1 = block_db_txn_count w
     \<and> block_db_txn_duration w1 = block_db_txn_duration w
     \<and> block_db_sched_duration w1 = block_db_sched_duration w"
proof (cases "current_context w")
  case None
  from enter_none [OF None, of m0] assms show ?thesis
    by (auto simp: LoggingContext_new_def LoggingContext_enter_def)
next
  case (Some c)
  from enter_some [OF Some, of m0] assms show ?thesis
    by auto
qed

subsection \<open>Release without acquire\<close>

text \<open>
  C8. If \<^verbatim>\<open>__exit__\<close> runs on a block that holds no baseline context, it returns at
  once: the world it leaves is the world it found, so no counter is incremented, nothing
  is logged and no context is created or exited.
\<close>

theorem release_without_acquire:
  assumes "start_context m = None"
  shows "Measure_exit m exc w = Inr w"
  using assms by (simp add: Measure_exit_def)

theorem release_without_acquire_witness:
  "start_context (Measure_init 0 ''x'') = None
   \<and> Measure_exit (Measure_init 0 ''x'') (None :: unit option) world0 = Inr world0"
proof -
  have h: "start_context (Measure_init 0 ''x'') = None"
    by (simp add: Measure_init_def)
  from release_without_acquire [OF h] h show ?thesis by simp
qed

subsection \<open>The block count\<close>

text \<open>
  C6. After a completed \<^verbatim>\<open>__enter__\<close>, \<^verbatim>\<open>__exit__\<close> returns in every world \<open>w2\<close>
  the work may leave behind (same context, another context or none), and it has
  incremented \<^verbatim>\<open>block_count\<close> for the block's name by exactly 1.
\<close>

theorem release_counts_block:
  assumes "Measure_enter m0 w = (m, w1)"
  shows "\<exists>w3. Measure_exit m exc w2 = Inr w3
     \<and> block_counter w3 (name m0) = block_counter w2 (name m0) + 1"
proof -
  from enter_slots [OF assms] obtain c where
    c: "start_context m = Some c" "start m = Some (time_msec w (clock m0))"
       "name m = name m0"
       "ru_utime m = Some (ctx_ru_utime (contexts w1 c))"
       "ru_stime m = Some (ctx_ru_stime (contexts w1 c))"
       "db_txn_count m = Some (ctx_db_txn_count (contexts w1 c))"
       "db_txn_duration_ms m = Some (ctx_db_txn_duration_ms (contexts w1 c))"
       "db_sched_duration_ms m = Some (ctx_db_sched_duration_ms (contexts w1 c))"
    by blast
  show ?thesis
  proof (cases "current_context w2 = Some c")
    case True
    show ?thesis
      unfolding exit_same [OF c(1,2) True c(4-8)]
      by (simp add: c(3) inc_def inc_by_def LoggingContext_exit_def)
  next
    case False
    show ?thesis
      unfolding exit_changed [OF c(1,2) False]
      by (simp add: c(3) inc_def inc_by_def warn_def)
  qed
qed

theorem release_counts_block_witness:
  "Measure_enter (Measure_init 0 ''x'') world0 = (measure_x, world1)
   \<and> (\<exists>w3. Measure_exit measure_x (None :: unit option) (lose_context world1) = Inr w3
        \<and> block_counter w3 ''x'' = block_counter (lose_context world1) ''x'' + 1)"
  using release_counts_block [OF enter_world0, of "None :: unit option" "lose_context world1"]
    enter_world0
  by (simp add: name_init)

subsection \<open>The block timer\<close>

text \<open>\<^verbatim>\<open>__exit__\<close> passes \<^verbatim>\<open>duration\<close>, the difference of two readings of
  \<^verbatim>\<open>time_msec\<close>, to \<^verbatim>\<open>block_timer.inc_by\<close> as it is: the counter registered as
  \<^verbatim>\<open>block_time_seconds\<close> grows by the number of milliseconds.\<close>

lemma block_timer_increment:
  assumes "Measure_enter m0 w = (m, w1)"
  shows "\<exists>w3. Measure_exit m exc w2 = Inr w3
     \<and> block_timer w3 (name m0)
         = block_timer w2 (name m0) + of_int (time_msec w2 (clock m0) - time_msec w (clock m0))"
proof -
  from enter_slots [OF assms] obtain c where
    c: "start_context m = Some c" "start m = Some (time_msec w (clock m0))"
       "name m = name m0"
       "ru_utime m = Some (ctx_ru_utime (contexts w1 c))"
       "ru_stime m = Some (ctx_ru_stime (contexts w1 c))"
       "db_txn_count m = Some (ctx_db_txn_count (contexts w1 c))"
       "db_txn_duration_ms m = Some (ctx_db_txn_duration_ms (contexts w1 c))"
       "db_sched_duration_ms m = Some (ctx_db_sched_duration_ms (contexts w1 c))"
       "clock m = clock m0"
    by blast
  show ?thesis
  proof (cases "current_context w2 = Some c")
    case True
    show ?thesis
      unfolding exit_same [OF c(1,2) True c(4-8)]
      by (simp add: c(3,9) inc_def inc_by_def LoggingContext_exit_def)
  next
    case False
    show ?thesis
      unfolding exit_changed [OF c(1,2) False]
      by (simp add: c(3,9) inc_def inc_by_def warn_def)
  qed
qed

text \<open>
  C1. The claim is that a cycle whose clock advances by \<open>D\<close> milliseconds adds \<open>D / 1000\<close>
  to \<^verbatim>\<open>block_time_seconds\<close>. In the scenario the clock advances from 1000 to 1300, and
  \<^verbatim>\<open>__exit__\<close> adds 300 to the counter for \<^verbatim>\<open>x\<close>, not 3/10.
\<close>

theorem block_timer_in_milliseconds:
  "map_sum id (\<lambda>w3. block_timer w3 ''x'' - block_timer (work world1) ''x'')
     (Measure_exit measure_x (None :: unit option) (work world1)) = Inr 300"
  by (simp add: exit_work) (simp add: work_def world1_def world0_def)

subsection \<open>A changed context\<close>

text \<open>
  C2. After a completed \<^verbatim>\<open>__enter__\<close>, if the current context at \<^verbatim>\<open>__exit__\<close> is
  not the baseline context, then \<^verbatim>\<open>__exit__\<close> returns, the five resource and
  database counters are unchanged, the log gains one warning that carries the baseline
  context, the current context and the block's name, no context is exited (the list of
  exited contexts and the current context are as before), and \<^verbatim>\<open>block_count\<close> and
  \<^verbatim>\<open>block_time_seconds\<close> have still been incremented for the block's name (by 1 and
  by the duration).
\<close>

theorem release_context_changed:
  assumes "Measure_enter m0 w = (m, w1)" and "current_context w2 \<noteq> start_context m"
  shows "\<exists>w3. Measure_exit m exc w2 = Inr w3
     \<and> block_ru_utime w3 = block_ru_utime w2
     \<and> block_ru_stime w3 = block_ru_stime w2
     \<and> block_db_txn_count w3 = block_db_txn_count w2
     \<and> block_db_txn_duration w3 = block_db_txn_duration w2
     \<and> block_db_sched_duration w3 = block_db_sched_duration w2
     \<and> warnings w3 = warnings w2
          @ [Context_changed (start_context m) (current_context w2) (name m0)]
     \<and> exited w3 = exited w2 \<and> current_context w3 = current_context w2
     \<and> block_counter w3 = inc (block_counter w2) (name m0)
     \<and> block_timer w3 = inc_by (block_timer w2)
          (of_int (time_msec w2 (clock m0) - time_msec w (clock m0))) (name m0)"
  unfolding release_changed [OF assms] by (simp add: warn_def)

theorem release_context_changed_witness:
  "Measure_enter (Measure_init 0 ''x'') world0 = (measure_x, world1)
   \<and> current_context (swap_context world1) \<noteq> start_context measure_x
   \<and> (\<exists>w3. Measure_exit measure_x (None :: unit option) (swap_context world1) = Inr w3
     \<and> block_ru_utime w3 = block_ru_utime (swap_context world1)
     \<and> block_ru_stime w3 = block_ru_stime (swap_context world1)
     \<and> block_db_txn_count w3 = block_db_txn_count (swap_context world1)
     \<and> block_db_txn_duration w3 = block_db_txn_duration (swap_context world1)
     \<and> block_db_sched_duration w3 = block_db_sched_duration (swap_context world1)
     \<and> warnings w3 = [Context_changed (Some 0) (Some 7) ''x'']
     \<and> exited w3 = [] \<and> current_context w3 = Some 7
     \<and> block_counter w3 ''x'' = 1
     \<and> block_timer w3 ''x'' = 300)"
proof -
  have h: "current_context (swap_context world1) \<noteq> start_context measure_x"
    by (simp add: swap_context_def measure_x_simps)
  have e: "exited (swap_context world1) = []" "warnings (swap_context world1) = []"
    "current_context (swap_context world1) = Some 7"
    "block_counter (swap_context world1) ''x'' = 0"
    "block_timer (swap_context world1) ''x'' = 0"
    "time_msec (swap_context world1) 0 = 1300" "time_msec world0 0 = 1000"
    by (simp_all add: swap_context_def work_def world1_def world0_def)
  from release_context_changed [OF enter_world0 h, of "None :: unit option"]
  show ?thesis
    by (auto simp: enter_world0 h e measure_x_simps name_init clock_init inc_def inc_by_def)
qed

subsection \<open>A context created by the block\<close>

text \<open>
  C3. When \<^verbatim>\<open>__enter__\<close> finds no current context, it creates a new context (the next
  reference of the heap, named \<^verbatim>\<open>Measure\<close>), enters it (it is the current context
  afterwards) and sets \<^verbatim>\<open>created_context\<close>. At \<^verbatim>\<open>__exit__\<close>, in a world \<open>w2\<close> where
  that context is still current, it is exited exactly once (the list of exited contexts
  gains exactly this context); in a world \<open>w2'\<close> where the current context is another
  one or none, no context is exited.
\<close>

theorem acquire_creates_owned_context:
  assumes "current_context w = None" and "Measure_enter m0 w = (m, w1)"
    and "current_context w2 = start_context m"
    and "current_context w2' \<noteq> start_context m"
  shows "start_context m = Some (next_ref w) \<and> created_context m
     \<and> current_context w1 = Some (next_ref w)
     \<and> next_ref w1 = Suc (next_ref w)
     \<and> ctx_name (contexts w1 (next_ref w)) = ''Measure''
     \<and> (\<exists>w3. Measure_exit m exc w2 = Inr w3 \<and> exited w3 = exited w2 @ [next_ref w])
     \<and> (\<exists>w3'. Measure_exit m exc w2' = Inr w3' \<and> exited w3' = exited w2')"
proof -
  from enter_none [OF assms(1), of m0] assms(2) have
    m: "start_context m = Some (next_ref w)" "created_context m"
    and w1: "w1 = LoggingContext_enter (next_ref w) (snd (LoggingContext_new ''Measure'' w))"
    by auto
  from w1 have f: "current_context w1 = Some (next_ref w)" "next_ref w1 = Suc (next_ref w)"
    "ctx_name (contexts w1 (next_ref w)) = ''Measure''"
    by (simp_all add: LoggingContext_enter_def LoggingContext_new_def)
  from assms(3) m(1) have s: "current_context w2 = Some (next_ref w)" by simp
  have a: "\<exists>w3. Measure_exit m exc w2 = Inr w3 \<and> exited w3 = exited w2 @ [next_ref w]"
    unfolding release_same [OF assms(2) m(1) s]
    by (simp add: m(2) LoggingContext_exit_def)
  have b: "\<exists>w3'. Measure_exit m exc w2' = Inr w3' \<and> exited w3' = exited w2'"
    unfolding release_changed [OF assms(2,4)]
    by (simp add: warn_def)
  from m f a b show ?thesis by blast
qed

theorem acquire_creates_owned_context_witness:
  "current_context world0 = None
   \<and> Measure_enter (Measure_init 0 ''x'') world0 = (measure_x, world1)
   \<and> current_context (work world1) = start_context measure_x
   \<and> current_context (swap_context world1) \<noteq> start_context measure_x
   \<and> start_context measure_x = Some 0 \<and> created_context measure_x
   \<and> current_context world1 = Some 0 \<and> next_ref world1 = 1
   \<and> ctx_name (contexts world1 0) = ''Measure''
   \<and> (\<exists>w3. Measure_exit measure_x (None :: unit option) (work world1) = Inr w3
          \<and> exited w3 = [0])
   \<and> (\<exists>w3'. Measure_exit measure_x (None :: unit option) (swap_context world1) = Inr w3'
          \<and> exited w3' = [])"
proof -
  have h1: "current_context world0 = None" by (simp add: world0_def)
  have h3: "current_context (work world1) = start_context measure_x"
    by (simp add: work_def world1_simps measure_x_simps)
  have h4: "current_context (swap_context world1) \<noteq> start_context measure_x"
    by (simp add: swap_context_def measure_x_simps)
  have e: "next_ref world0 = 0" "exited (work world1) = []" "exited (swap_context world1) = []"
    by (simp_all add: swap_context_def work_def world1_def world0_def)
  from acquire_creates_owned_context [OF h1 enter_world0 h3 h4, of "None :: unit option"]
    h1 h3 h4 enter_world0
  show ?thesis
    by (simp add: e)
qed

subsection \<open>Failure of the wrapped work\<close>

text \<open>
  C4. When the body of \<^verbatim>\<open>with Measure(clock, name)\<close> raises \<open>x\<close>, \<^verbatim>\<open>__exit__\<close> still
  runs and returns, \<^verbatim>\<open>block_count\<close> for the block's name has grown by exactly 1, and
  the statement as a whole raises the same \<open>x\<close>; the same holds for a method wrapped by
  \<^verbatim>\<open>measure_func\<close>.
\<close>

theorem failure_is_counted_and_propagates:
  assumes "Measure_enter (Measure_init clk nm) w = (m, w1)" and "body w1 = (Inl x, w2)"
  shows "\<exists>w3. Measure_exit m (Some x) w2 = Inr w3
     \<and> block_counter w3 nm = block_counter w2 nm + 1
     \<and> with_Measure clk nm body w = (Inl (Raised x), w3)
     \<and> measure_func nm body clk w = (Inl (Raised x), w3)"
proof -
  from enter_slots [OF assms(1)] obtain c where c: "start_context m = Some c"
    by blast
  have "\<exists>w3. Measure_exit m (Some x) w2 = Inr w3
     \<and> block_counter w3 nm = block_counter w2 nm + 1"
  proof (cases "current_context w2 = Some c")
    case True
    show ?thesis
      unfolding release_same [OF assms(1) c True]
      by (simp add: name_init inc_def inc_by_def LoggingContext_exit_def)
  next
    case False
    then have "current_context w2 \<noteq> start_context m" by (simp add: c)
    from release_changed [OF assms(1) this, of "Some x"] show ?thesis
      by (simp add: name_init inc_def inc_by_def warn_def)
  qed
  then obtain w3 where w3: "Measure_exit m (Some x) w2 = Inr w3"
    "block_counter w3 nm = block_counter w2 nm + 1"
    by blast
  have "with_Measure clk nm body w = (Inl (Raised x), w3)"
    by (simp add: with_Measure_def assms w3(1))
  with w3 show ?thesis
    by (simp add: measure_func_def)
qed

theorem failure_is_counted_and_propagates_witness:
  "Measure_enter (Measure_init 0 ''x'') world0 = (measure_x, world1)
   \<and> failing_work world1 = (Inl ''boom'', work world1)
   \<and> (\<exists>w3. Measure_exit measure_x (Some ''boom'') (work world1) = Inr w3
     \<and> block_counter w3 ''x'' = 1
     \<and> with_Measure 0 ''x'' failing_work world0 = (Inl (Raised ''boom''), w3)
     \<and> measure_func ''x'' failing_work 0 world0 = (Inl (Raised ''boom''), w3))"
proof -
  have h: "failing_work world1 = (Inl ''boom'', work world1)"
    by (simp add: failing_work_def)
  from failure_is_counted_and_propagates [where body = failing_work, OF enter_world0 h]
    enter_world0 h
  show ?thesis
    by (simp add: work_world1_simps)
qed

subsection \<open>The same context at both ends\<close>

text \<open>
  C5. After a completed \<^verbatim>\<open>__enter__\<close> with baseline context \<open>c\<close>, if \<open>c\<close> is the
  current context at \<^verbatim>\<open>__exit__\<close>, each of the five resource and database counters
  grows, for the block's name, by the difference of the corresponding total of \<open>c\<close>
  between the two moments: the CPU times as they are, the transaction count as a count,
  the two durations divided by 1000. For any other label, all seven counters are
  unchanged.
\<close>

theorem release_same_context_deltas:
  assumes "Measure_enter m0 w = (m, w1)" and "start_context m = Some c"
    and "current_context w2 = Some c" and "other \<noteq> name m0"
  shows "\<exists>w3. Measure_exit m exc w2 = Inr w3
     \<and> block_ru_utime w3 (name m0) = block_ru_utime w2 (name m0)
          + (ctx_ru_utime (contexts w2 c) - ctx_ru_utime (contexts w1 c))
     \<and> block_ru_stime w3 (name m0) = block_ru_stime w2 (name m0)
          + (ctx_ru_stime (contexts w2 c) - ctx_ru_stime (contexts w1 c))
     \<and> block_db_txn_count w3 (name m0) = block_db_txn_count w2 (name m0)
          + of_int (ctx_db_txn_count (contexts w2 c) - ctx_db_txn_count (contexts w1 c))
     \<and> block_db_txn_duration w3 (name m0) = block_db_txn_duration w2 (name m0)
          + (ctx_db_txn_duration_ms (contexts w2 c)
              - ctx_db_txn_duration_ms (contexts w1 c)) / 1000
     \<and> block_db_sched_duration w3 (name m0) = block_db_sched_duration w2 (name m0)
          + (ctx_db_sched_duration_ms (contexts w2 c)
              - ctx_db_sched_duration_ms (contexts w1 c)) / 1000
     \<and> block_counter w3 other = block_counter w2 other
     \<and> block_timer w3 other = block_timer w2 other
     \<and> block_ru_utime w3 other = block_ru_utime w2 other
     \<and> block_ru_stime w3 other = block_ru_stime w2 other
     \<and> block_db_txn_count w3 other = block_db_txn_count w2 other
     \<and> block_db_txn_duration w3 other = block_db_txn_duration w2 other
     \<and> block_db_sched_duration w3 other = block_db_sched_duration w2 other"
  unfolding release_same [OF assms(1-3)] using assms(4)
  by (simp add: inc_def inc_by_def LoggingContext_exit_def)

theorem release_same_context_deltas_witness:
  "Measure_enter (Measure_init 0 ''x'') world0 = (measure_x, world1)
   \<and> start_context measure_x = Some 0
   \<and> current_context (work world1) = Some 0 \<and> ''y'' \<noteq> name (Measure_init 0 ''x'')
   \<and> (\<exists>w3. Measure_exit measure_x (None :: unit option) (work world1) = Inr w3
     \<and> block_ru_utime w3 ''x'' = 0 \<and> block_ru_stime w3 ''x'' = 0
     \<and> block_db_txn_count w3 ''x'' = 2
     \<and> block_db_txn_duration w3 ''x'' = 2 / 5
     \<and> block_db_sched_duration w3 ''x'' = 0
     \<and> block_counter w3 ''y'' = 0 \<and> block_timer w3 ''y'' = 0
     \<and> block_ru_utime w3 ''y'' = 0 \<and> block_ru_stime w3 ''y'' = 0
     \<and> block_db_txn_count w3 ''y'' = 0 \<and> block_db_txn_duration w3 ''y'' = 0
     \<and> block_db_sched_duration w3 ''y'' = 0)"
proof -
  have h4: "''y'' \<noteq> name (Measure_init 0 ''x'')" by (simp add: name_init)
  from release_same_context_deltas [OF enter_world0 measure_x_simps(1)
      work_world1_simps(1) h4, of "None :: unit option"]
    enter_world0 measure_x_simps(1) work_world1_simps(1) h4
  show ?thesis
    by (simp add: name_init work_world1_simps world1_context_simps)
qed

subsection \<open>No current context at release\<close>

text \<open>
  C7, as stated, fails. The claim is that an absent current context at \<^verbatim>\<open>__exit__\<close>
  (after a completed \<^verbatim>\<open>__enter__\<close>) is reported by the dedicated absence check, whose
  warning names only the block. In the scenario, with no current context at release, the
  only warning logged is the one of the mismatch check.
\<close>

theorem absent_context_reported_as_changed:
  "map_sum id warnings
     (Measure_exit measure_x (None :: unit option) (lose_context world1))
     = Inr [Context_changed (Some 0) None ''x'']
   \<and> map_sum id warnings
     (Measure_exit measure_x (None :: unit option) (lose_context world1))
     \<noteq> Inr [Expected_context ''x'']"
proof -
  have h: "current_context (lose_context world1) \<noteq> start_context measure_x"
    by (simp add: lose_context_def measure_x_simps)
  show ?thesis
    unfolding release_changed [OF enter_world0 h]
    by (simp add: warn_def name_init lose_context_def work_world1_simps measure_x_simps)
qed

text \<open>
  C7, amended. After a completed \<^verbatim>\<open>__enter__\<close>, if there is no current context at
  \<^verbatim>\<open>__exit__\<close>, then \<^verbatim>\<open>__exit__\<close> returns having logged one warning, that of the
  mismatch check, which carries the baseline context, the absent context and the block's
  name; the five resource and database counters are unchanged and no context is exited.
\<close>

theorem release_absent_context:
  assumes "Measure_enter m0 w = (m, w1)" and "current_context w2 = None"
  shows "\<exists>w3. Measure_exit m exc w2 = Inr w3
     \<and> warnings w3 = warnings w2 @ [Context_changed (start_context m) None (name m0)]
     \<and> block_ru_utime w3 = block_ru_utime w2
     \<and> block_ru_stime w3 = block_ru_stime w2
     \<and> block_db_txn_count w3 = block_db_txn_count w2
     \<and> block_db_txn_duration w3 = block_db_txn_duration w2
     \<and> block_db_sched_duration w3 = block_db_sched_duration w2
     \<and> exited w3 = exited w2 \<and> current_context w3 = None"
proof -
  from enter_slots [OF assms(1)] assms(2)
  have "current_context w2 \<noteq> start_context m" by auto
  from release_changed [OF assms(1) this, of exc] show ?thesis
    by (simp add: warn_def assms(2))
qed

theorem release_absent_context_witness:
  "Measure_enter (Measure_init 0 ''x'') world0 = (measure_x, world1)
   \<and> current_context (lose_context world1) = None
   \<and> (\<exists>w3. Measure_exit measure_x (None :: unit option) (lose_context world1) = Inr w3
     \<and> warnings w3 = [Context_changed (Some 0) None ''x'']
     \<and> block_ru_utime w3 ''x'' = 0 \<and> block_ru_stime w3 ''x'' = 0
     \<and> block_db_txn_count w3 ''x'' = 0 \<and> block_db_txn_duration w3 ''x'' = 0
     \<and> block_db_sched_duration w3 ''x'' = 0
     \<and> exited w3 = [] \<and> current_context w3 = None)"
proof -
  have h: "current_context (lose_context world1) = None"
    by (simp add: lose_context_def)
  from release_absent_context [OF enter_world0 h, of "None :: unit option"]
    enter_world0 h
  show ?thesis
    by (auto simp: name_init lose_context_def work_world1_simps measure_x_simps)
qed

subsection \<open>Counters never decrease\<close>

text \<open>
  C9. \<^verbatim>\<open>__enter__\<close> changes no counter. After it, if the clock of the block has not gone
  back and none of the five totals of the baseline context has decreased, then
  \<^verbatim>\<open>__exit__\<close> returns and, for every label \<open>n\<close>, each of the seven counters is at
  least what it was before.
\<close>

theorem release_never_decrements:
  assumes "Measure_enter m0 w = (m, w1)" and "start_context m = Some c"
    and "time_msec w (clock m0) \<le> time_msec w2 (clock m0)"
    and "ctx_ru_utime (contexts w1 c) \<le> ctx_ru_utime (contexts w2 c)"
    and "ctx_ru_stime (contexts w1 c) \<le> ctx_ru_stime (contexts w2 c)"
    and "ctx_db_txn_count (contexts w1 c) \<le> ctx_db_txn_count (contexts w2 c)"
    and "ctx_db_txn_duration_ms (contexts w1 c) \<le> ctx_db_txn_duration_ms (contexts w2 c)"
    and "ctx_db_sched_duration_ms (contexts w1 c)
           \<le> ctx_db_sched_duration_ms (contexts w2 c)"
  shows "block_counter w1 = block_counter w \<and> block_timer w1 = block_timer w
     \<and> block_ru_utime w1 = block_ru_utime w \<and> block_ru_stime w1 = block_ru_stime w
     \<and> block_db_txn_count w1 = block_db_txn_count w
     \<and> block_db_txn_duration w1 = block_db_txn_duration w
     \<and> block_db_sched_duration w1 = block_db_sched_duration w
     \<and> (\<exists>w3. Measure_exit m exc w2 = Inr w3
     \<and> block_counter w2 n \<le> block_counter w3 n
     \<and> block_timer w2 n \<le> block_timer w3 n
     \<and> block_ru_utime w2 n \<le> block_ru_utime w3 n
     \<and> block_ru_stime w2 n \<le> block_ru_stime w3 n
     \<and> block_db_txn_count w2 n \<le> block_db_txn_count w3 n
     \<and> block_db_txn_duration w2 n \<le> block_db_txn_duration w3 n
     \<and> block_db_sched_duration w2 n \<le> block_db_sched_duration w3 n)"
proof -
  have r: "\<exists>w3. Measure_exit m exc w2 = Inr w3
     \<and> block_counter w2 n \<le> block_counter w3 n
     \<and> block_timer w2 n \<le> block_timer w3 n
     \<and> block_ru_utime w2 n \<le> block_ru_utime w3 n
     \<and> block_ru_stime w2 n \<le> block_ru_stime w3 n
     \<and> block_db_txn_count w2 n \<le> block_db_txn_count w3 n
     \<and> block_db_txn_duration w2 n \<le> block_db_txn_duration w3 n
     \<and> block_db_sched_duration w2 n \<le> block_db_sched_duration w3 n"
  proof (cases "current_context w2 = Some c")
    case True
    show ?thesis
      unfolding release_same [OF assms(1,2) True] using assms(3-8)
      by (simp add: inc_def inc_by_def LoggingContext_exit_def)
  next
    case False
    then have "current_context w2 \<noteq> start_context m" by (simp add: assms(2))
    from release_changed [OF assms(1) this, of exc] assms(3) show ?thesis
      by (simp add: inc_def inc_by_def warn_def)
  qed
  from enter_counters [OF assms(1)] r show ?thesis by simp
qed

theorem release_never_decrements_witness:
  "Measure_enter (Measure_init 0 ''x'') world0 = (measure_x, world1)
   \<and> start_context measure_x = Some 0
   \<and> time_msec world0 (clock (Measure_init 0 ''x''))
        \<le> time_msec (work world1) (clock (Measure_init 0 ''x''))
   \<and> ctx_ru_utime (contexts world1 0) \<le> ctx_ru_utime (contexts (work world1) 0)
   \<and> ctx_ru_stime (contexts world1 0) \<le> ctx_ru_stime (contexts (work world1) 0)
   \<and> ctx_db_txn_count (contexts world1 0) \<le> ctx_db_txn_count (contexts (work world1) 0)
   \<and> ctx_db_txn_duration_ms (contexts world1 0)
        \<le> ctx_db_txn_duration_ms (contexts (work world1) 0)
   \<and> ctx_db_sched_duration_ms (contexts world1 0)
        \<le> ctx_db_sched_duration_ms (contexts (work world1) 0)
   \<and> (\<exists>w3. Measure_exit measure_x (None :: unit option) (work world1) = Inr w3
     \<and> 0 \<le> block_counter w3 ''x'' \<and> 0 \<le> block_timer w3 ''x''
     \<and> 0 \<le> block_ru_utime w3 ''x'' \<and> 0 \<le> block_ru_stime w3 ''x''
     \<and> 0 \<le> block_db_txn_count w3 ''x'' \<and> 0 \<le> block_db_txn_duration w3 ''x''
     \<and> 0 \<le> block_db_sched_duration w3 ''x'')"
proof -
  have h3: "time_msec world0 (clock (Measure_init 0 ''x''))
        \<le> time_msec (work world1) (clock (Measure_init 0 ''x''))"
    by (simp add: work_world1_simps world0_def)
  have h4: "ctx_ru_utime (contexts world1 0) \<le> ctx_ru_utime (contexts (work world1) 0)"
    and h5: "ctx_ru_stime (contexts world1 0) \<le> ctx_ru_stime (contexts (work world1) 0)"
    and h6: "ctx_db_txn_count (contexts world1 0)
        \<le> ctx_db_txn_count (contexts (work world1) 0)"
    and h7: "ctx_db_txn_duration_ms (contexts world1 0)
        \<le> ctx_db_txn_duration_ms (contexts (work world1) 0)"
    and h8: "ctx_db_sched_duration_ms (contexts world1 0)
        \<le> ctx_db_sched_duration_ms (contexts (work world1) 0)"
    by (simp_all add: work_world1_simps world1_context_simps)
  from release_never_decrements [OF enter_world0 measure_x_simps(1) h3 h4 h5 h6 h7 h8,
      of "None :: unit option" "''x''"]
    enter_world0 measure_x_simps(1) h3 h4 h5 h6 h7 h8
  show ?thesis
    by (simp add: work_world1_simps)
qed

subsection \<open>The absence check is dead code\<close>

text \<open>
  C10. After a completed \<^verbatim>\<open>__enter__\<close> the baseline context is never absent. Hence
  \<^verbatim>\<open>__exit__\<close>, in any world \<open>w2\<close>, returns without the warning of the absence check
  having been logged; and in a world \<open>w2'\<close> with no current context, the current
  context differs from the baseline and the warning logged is that of the mismatch check.
\<close>

theorem absence_branch_unreachable:
  assumes "Measure_enter m0 w = (m, w1)" and "current_context w2' = None"
  shows "start_context m \<noteq> None
     \<and> (\<exists>w3. Measure_exit m exc w2 = Inr w3
           \<and> warnings w3 \<noteq> warnings w2 @ [Expected_context (name m0)])
     \<and> current_context w2' \<noteq> start_context m
     \<and> (\<exists>w3'. Measure_exit m exc w2' = Inr w3'
           \<and> warnings w3' = warnings w2'
                @ [Context_changed (start_context m) None (name m0)])"
proof -
  from enter_slots [OF assms(1)] obtain c where c: "start_context m = Some c"
    by blast
  from c assms(2) have d: "current_context w2' \<noteq> start_context m" by simp
  have a: "\<exists>w3. Measure_exit m exc w2 = Inr w3
           \<and> warnings w3 \<noteq> warnings w2 @ [Expected_context (name m0)]"
  proof (cases "current_context w2 = Some c")
    case True
    show ?thesis
      unfolding release_same [OF assms(1) c True]
      by (simp add: LoggingContext_exit_def)
  next
    case False
    then have "current_context w2 \<noteq> start_context m" by (simp add: c)
    from release_changed [OF assms(1) this, of exc] show ?thesis
      by (simp add: warn_def)
  qed
  have b: "\<exists>w3'. Measure_exit m exc w2' = Inr w3'
           \<and> warnings w3' = warnings w2'
                @ [Context_changed (start_context m) None (name m0)]"
    unfolding release_changed [OF assms(1) d] by (simp add: warn_def assms(2))
  from c d a b show ?thesis by simp
qed

theorem absence_branch_unreachable_witness:
  "Measure_enter (Measure_init 0 ''x'') world0 = (measure_x, world1)
   \<and> current_context (lose_context world1) = None
   \<and> start_context measure_x \<noteq> None
   \<and> (\<exists>w3. Measure_exit measure_x (None :: unit option) (work world1) = Inr w3
           \<and> warnings w3 \<noteq> [Expected_context ''x''])
   \<and> current_context (lose_context world1) \<noteq> start_context measure_x
   \<and> (\<exists>w3'. Measure_exit measure_x (None :: unit option) (lose_context world1) = Inr w3'
           \<and> warnings w3' = [Context_changed (Some 0) None ''x''])"
proof -
  have h: "current_context (lose_context world1) = None"
    by (simp add: lose_context_def)
  from absence_branch_unreachable [OF enter_world0 h, of "None :: unit option" "work world1"]
    enter_world0 h
  show ?thesis
    by (simp add: name_init lose_context_def work_world1_simps measure_x_simps)
qed

end
